theory Spec2Isabelle
  imports Complex_Main
begin

section \<open>The transaction gateway of the admin dashboard\<close>

text \<open>
  A shallow embedding of \<^verbatim>\<open>src/app/api/transactions/route.ts\<close>: the three handlers
  \<^verbatim>\<open>GET\<close>, \<^verbatim>\<open>POST\<close> and \<^verbatim>\<open>DELETE\<close> of the route \<^verbatim>\<open>/api/transactions\<close>.
  The hosted store (Supabase) is not part of the repository; every handler takes the
  store's answers as a parameter and returns, next to the HTTP response, the list of
  store calls it issued.
\<close>

subsection \<open>JavaScript values\<close>

text \<open>
  The JSON values a request body or a store answer can hold, plus \<^verbatim>\<open>undefined\<close> (what
  reading a missing property gives). A number is the real it denotes: JSON carries neither
  NaN nor an infinity, and the handlers only apply \<^verbatim>\<open>Math.abs\<close> and unary minus, both
  exact on doubles. An object is the list of its members in textual order.
\<close>

datatype jsval =
    JUndefined
  | JNull
  | JBool bool
  | JNum real
  | JStr string
  | JArr "jsval list"
  | JObj "(string \<times> jsval) list"

text \<open>\<^verbatim>\<open>!v\<close> is \<open>\<not> truthy v\<close>: the falsy values are undefined, null, false, 0 and the empty string.\<close>

fun truthy :: "jsval \<Rightarrow> bool" where
  "truthy JUndefined = False"
| "truthy JNull = False"
| "truthy (JBool b) = b"
| "truthy (JNum n) = (n \<noteq> 0)"
| "truthy (JStr s) = (s \<noteq> [])"
| "truthy (JArr xs) = True"
| "truthy (JObj kvs) = True"

text \<open>Reading a property of null or undefined throws a TypeError.\<close>

fun nullish :: "jsval \<Rightarrow> bool" where
  "nullish JUndefined = True"
| "nullish JNull = True"
| "nullish v = False"

text \<open>
  \<^verbatim>\<open>v[k]\<close> for a value that is not nullish and a key \<open>k\<close> that is not a built-in property
  (the handlers read \<^verbatim>\<open>anggota_id\<close>, \<^verbatim>\<open>success\<close> and the like): a member of an
  object, where the last of several members of one name wins as in \<^verbatim>\<open>JSON.parse\<close>,
  and undefined on everything else.
\<close>

fun get :: "jsval \<Rightarrow> string \<Rightarrow> jsval" where
  "get (JObj kvs) k = (case map_of (rev kvs) k of None \<Rightarrow> JUndefined | Some v \<Rightarrow> v)"
| "get v k = JUndefined"

text \<open>\<^verbatim>\<open>a || b\<close>\<close>

definition js_or :: "jsval \<Rightarrow> jsval \<Rightarrow> jsval" where
  "js_or a b = (if truthy a then a else b)"

text \<open>Nullable columns of a typed row, as the values they are in JavaScript.\<close>

fun str_or_null :: "string option \<Rightarrow> jsval" where
  "str_or_null None = JNull"
| "str_or_null (Some s) = JStr s"

fun num_or_null :: "real option \<Rightarrow> jsval" where
  "num_or_null None = JNull"
| "num_or_null (Some n) = JNum n"

subsection \<open>Responses and the store client\<close>

text \<open>\<^verbatim>\<open>NextResponse.json(body, {status})\<close>; the status is 200 when none is given.\<close>

record response =
  status :: nat
  body :: jsval

definition json :: "jsval \<Rightarrow> response" where
  "json b = \<lparr>status = 200, body = b\<rparr>"

definition json_status :: "jsval \<Rightarrow> nat \<Rightarrow> response" where
  "json_status b st = \<lparr>status = st, body = b\<rparr>"

text \<open>What the store client resolves to: \<^verbatim>\<open>{ data, error, count }\<close>.\<close>

record PostgrestError =
  message :: string
  details :: "string option"
  hint :: "string option"
  code :: "string option"

record 'a PostgrestResponse =
  data :: 'a
  error :: "PostgrestError option"
  count :: "nat option"

subsection \<open>GET: the normalized list\<close>

text \<open>The flat row of \<^verbatim>\<open>get_all_transactions\<close> (type \<^verbatim>\<open>TransactionRPCResult\<close>).\<close>

record TransactionRPCResult =
  id' :: string
  anggota_id :: string
  tipe_transaksi :: string
  source_type :: "string option"
  deskripsi :: "string option"
  jumlah :: real
  sebelum :: real
  sesudah :: real
  pembiayaan_id :: "string option"
  tabungan_id :: "string option"
  created_at :: string
  updated_at :: string
  anggota_nama :: "string option"
  anggota_nomor_rekening :: "string option"
  tabungan_saldo :: "real option"
  tabungan_jenis_id :: "string option"
  tabungan_jenis_nama :: "string option"
  tabungan_jenis_kode :: "string option"
  pembiayaan_jumlah :: "real option"
  pembiayaan_sisa :: "real option"
  pembiayaan_jenis :: "string option"

text \<open>\<^verbatim>\<open>Number(x)\<close> of a number is that number.\<close>

definition Number :: "real \<Rightarrow> real" where
  "Number x = x"

text \<open>The sign of \<^verbatim>\<open>jumlah\<close> as recomputed from \<^verbatim>\<open>tipe_transaksi\<close> (lines 85-88).\<close>

definition signed_jumlah :: "TransactionRPCResult \<Rightarrow> real" where
  "signed_jumlah item =
     (if tipe_transaksi item = ''masuk''
      then \<bar>Number (jumlah item)\<bar>
      else - \<bar>Number (jumlah item)\<bar>)"

definition anggota_of :: "TransactionRPCResult \<Rightarrow> jsval" where
  "anggota_of item =
     (if truthy (str_or_null (anggota_nama item))
      then JObj [(''nama'', str_or_null (anggota_nama item)),
                 (''nomor_rekening'', str_or_null (anggota_nomor_rekening item))]
      else JNull)"

definition tabungan_of :: "TransactionRPCResult \<Rightarrow> jsval" where
  "tabungan_of item =
     (if truthy (str_or_null (tabungan_id item))
      then JObj [(''saldo'', num_or_null (tabungan_saldo item)),
                 (''jenis_tabungan_id'', str_or_null (tabungan_jenis_id item)),
                 (''jenis_tabungan'',
                    if truthy (str_or_null (tabungan_jenis_nama item))
                    then JObj [(''nama'', str_or_null (tabungan_jenis_nama item)),
                               (''kode'', str_or_null (tabungan_jenis_kode item))]
                    else JNull)]
      else JNull)"

definition pinjaman_of :: "TransactionRPCResult \<Rightarrow> jsval" where
  "pinjaman_of item =
     (if truthy (num_or_null (pembiayaan_jumlah item))
      then JObj [(''id'', str_or_null (pembiayaan_id item)),
                 (''jumlah'', num_or_null (pembiayaan_jumlah item)),
                 (''sisa_pembayaran'', num_or_null (pembiayaan_sisa item)),
                 (''jenis_pinjaman'', str_or_null (pembiayaan_jenis item))]
      else JNull)"

text \<open>The callback of \<^verbatim>\<open>data?.map\<close> (lines 81-136).\<close>

definition transform :: "TransactionRPCResult \<Rightarrow> jsval" where
  "transform item =
     JObj [(''id'', JStr (id' item)),
           (''anggota_id'', JStr (anggota_id item)),
           (''tipe_transaksi'', JStr (tipe_transaksi item)),
           (''source_type'', str_or_null (source_type item)),
           (''deskripsi'', str_or_null (deskripsi item)),
           (''jumlah'', JNum (signed_jumlah item)),
           (''sebelum'', JNum (sebelum item)),
           (''sesudah'', JNum (sesudah item)),
           (''pembiayaan_id'', str_or_null (pembiayaan_id item)),
           (''tabungan_id'', str_or_null (tabungan_id item)),
           (''created_at'', JStr (created_at item)),
           (''updated_at'', JStr (updated_at item)),
           (''anggota'', anggota_of item),
           (''tabungan'', tabungan_of item),
           (''pinjaman'', pinjaman_of item)]"

text \<open>
  The handler, given what \<^verbatim>\<open>supabase.rpc("get_all_transactions").limit(100)\<close> resolved
  to: a store error is a 500 carrying its message, otherwise the rows are mapped
  (\<^verbatim>\<open>data?.map(...) || []\<close>, so no rows when \<^verbatim>\<open>data\<close> is null).
\<close>

definition GET :: "TransactionRPCResult list option PostgrestResponse \<Rightarrow> response" where
  "GET r =
     (case error r of
        Some e \<Rightarrow> json_status (JObj [(''error'', JStr (message e))]) 500
      | None \<Rightarrow>
          json (JArr (case data r of None \<Rightarrow> [] | Some rows \<Rightarrow> map transform rows)))"

subsection \<open>POST: recording a transaction\<close>

text \<open>What a handler's \<^verbatim>\<open>try\<close> block can throw, and the store calls a handler issues.\<close>

datatype exn = TypeError | SyntaxError

datatype store_call =
    Rpc string jsval
  | SelectSingle string string
  | DeleteEq string string

definition requiredFields :: "string list" where
  "requiredFields = [''anggota_id'', ''tipe_transaksi'', ''source_type'', ''jumlah'']"

text \<open>
  The loop \<^verbatim>\<open>for (const field of requiredFields) if (!body[field]) return ...\<close>:
  the field the loop returns at, if any.
\<close>

fun first_missing :: "jsval \<Rightarrow> string list \<Rightarrow> string option" where
  "first_missing b [] = None"
| "first_missing b (field # rest) =
     (if \<not> truthy (get b field) then Some field else first_missing b rest)"

text \<open>The template \<^verbatim>\<open>`Field '${field}' is required`\<close>.\<close>

definition field_required :: "string \<Rightarrow> string" where
  "field_required field = ''Field '' @ [CHR 0x27] @ field @ [CHR 0x27] @ '' is required''"

definition unexpected :: response where
  "unexpected = json_status (JObj [(''error'', JStr ''An unexpected error occurred'')]) 500"

text \<open>The arguments of \<^verbatim>\<open>add_transaction\<close> (lines 184-194).\<close>

definition add_transaction_args :: "jsval \<Rightarrow> jsval" where
  "add_transaction_args b =
     JObj [(''p_anggota_id'', get b ''anggota_id''),
           (''p_tipe_transaksi'', get b ''tipe_transaksi''),
           (''p_source_type'', get b ''source_type''),
           (''p_jumlah'', get b ''jumlah''),
           (''p_deskripsi'', js_or (get b ''deskripsi'') JNull),
           (''p_jenis_tabungan_id'', js_or (get b ''jenis_tabungan_id'') JNull),
           (''p_pembiayaan_id'',
              js_or (js_or (get b ''pembiayaan_id'') (get b ''pinjaman_id'')) JNull)]"

text \<open>
  The body of the \<^verbatim>\<open>try\<close> block, after \<^verbatim>\<open>request.json()\<close> gave \<open>b\<close>. The
  parameter \<open>rpc\<close> is the store: the answer of \<^verbatim>\<open>supabase.rpc(name, args)\<close>. The
  first \<^verbatim>\<open>body[field]\<close> throws when the body is null, and \<^verbatim>\<open>data.success\<close> throws
  when the store answered without data.
\<close>

definition POST_try ::
  "(string \<Rightarrow> jsval \<Rightarrow> jsval PostgrestResponse) \<Rightarrow> jsval \<Rightarrow> (exn + response) \<times> store_call list"
where
  "POST_try rpc b =
     (if nullish b then (Inl TypeError, [])
      else case first_missing b requiredFields of
        Some field \<Rightarrow>
          (Inr (json_status (JObj [(''error'', JStr (field_required field))]) 400), [])
      | None \<Rightarrow>
          if get b ''source_type'' = JStr ''tabungan'' \<and> \<not> truthy (get b ''jenis_tabungan_id'')
          then (Inr (json_status
                  (JObj [(''error'',
                     JStr ''Jenis tabungan harus dipilih untuk setoran atau penarikan'')]) 400), [])
          else
            let args = add_transaction_args b;
                r = rpc ''add_transaction'' args;
                calls = [Rpc ''add_transaction'' args]
            in (case error r of
                 Some e \<Rightarrow>
                   (Inr (json_status
                      (JObj [(''error'', JStr (''Failed to create transaction: '' @ message e))])
                      500), calls)
               | None \<Rightarrow>
                   if nullish (data r) then (Inl TypeError, calls)
                   else if \<not> truthy (get (data r) ''success'')
                   then (Inr (json_status (JObj [(''error'', get (data r) ''error'')]) 400), calls)
                   else (Inr (json (JObj [(''success'', JBool True),
                                         (''message'', JStr ''Transaction created successfully''),
                                         (''data'', JObj [(''id'', get (data r) ''transaction_id'')])])),
                         calls)))"

text \<open>
  The handler: \<open>req\<close> is what \<^verbatim>\<open>request.json()\<close> gave (a body, or a rejection when
  the request is not JSON); anything thrown is caught and answered by a generic 500.
\<close>

definition POST ::
  "(string \<Rightarrow> jsval \<Rightarrow> jsval PostgrestResponse) \<Rightarrow> exn + jsval \<Rightarrow> response \<times> store_call list"
where
  "POST rpc req =
     (case req of
        Inl e \<Rightarrow> (unexpected, [])
      | Inr b \<Rightarrow>
          (case POST_try rpc b of
             (Inl e, calls) \<Rightarrow> (unexpected, calls)
           | (Inr resp, calls) \<Rightarrow> (resp, calls)))"

subsection \<open>DELETE: removing a transaction\<close>

text \<open>
  A store client over a store state \<open>'s\<close>, reduced to the two queries the handler
  builds on the table \<^verbatim>\<open>transaksi\<close>: \<^verbatim>\<open>.select(...).eq("id", id).single()\<close>, which reads,
  and \<^verbatim>\<open>.delete().eq("id", id)\<close>, which may change the state.
\<close>

record 's client =
  select_single :: "string \<Rightarrow> 's \<Rightarrow> jsval PostgrestResponse"
  delete_eq :: "string \<Rightarrow> 's \<Rightarrow> jsval PostgrestResponse \<times> 's"

definition transaksi :: string where
  "transaksi = ''transaksi''"

text \<open>
  The handler: \<open>supabaseAdmin\<close> is the admin client when one is configured, \<open>supabase\<close>
  the regular one, \<open>param\<close> what \<^verbatim>\<open>searchParams.get("id")\<close> gave (null when the query
  has no \<^verbatim>\<open>id\<close>), \<open>s\<close> the store state. It returns the response, the store state
  afterwards and the calls issued. Nothing in the \<^verbatim>\<open>try\<close> block reads a property of
  a nullish value, so the \<^verbatim>\<open>catch\<close> branch has no counterpart here.
\<close>

definition DELETE ::
  "'s client option \<Rightarrow> 's client \<Rightarrow> string option \<Rightarrow> 's \<Rightarrow> response \<times> 's \<times> store_call list"
where
  "DELETE supabaseAdmin supabase param s =
     (if \<not> truthy (str_or_null param)
      then (json_status (JObj [(''error'', JStr ''Transaction ID is required'')]) 400, s, [])
      else
        let transactionId = (case param of Some t \<Rightarrow> t | None \<Rightarrow> []);
            clientToUse = (case supabaseAdmin of Some c \<Rightarrow> c | None \<Rightarrow> supabase);
            fetched = select_single clientToUse transactionId s;
            calls = [SelectSingle transaksi transactionId]
        in case error fetched of
             Some fetchError \<Rightarrow>
               (json_status
                  (JObj [(''error'', JStr (''Transaction not found: '' @ message fetchError))])
                  404, s, calls)
           | None \<Rightarrow>
               if \<not> truthy (data fetched)
               then (json_status (JObj [(''error'', JStr ''Transaction not found'')]) 404, s, calls)
               else
                 let (deleted, s') = delete_eq clientToUse transactionId s;
                     calls' = calls @ [DeleteEq transaksi transactionId]
                 in (case error deleted of
                       Some deleteError \<Rightarrow>
                         (json_status
                            (JObj [(''error'',
                                      JStr (''Failed to delete transaction: '' @ message deleteError)),
                                   (''details'', str_or_null (details deleteError)),
                                   (''hint'', str_or_null (hint deleteError)),
                                   (''code'', str_or_null (code deleteError))])
                            500, s', calls')
                     | None \<Rightarrow>
                         (json (JObj [(''success'', JBool True),
                                      (''message'', JStr ''Transaction deleted successfully'')]),
                          s', calls')))"

text \<open>
  Modelled from the spec: the ledger table behind the client, which the repository
  does not contain (``conventional row get/delete by id'', and for the existence check
  ``fetch the transaction by id; if absent, fail with a not-found error''). The table is a
  list of rows, each an id with its columns; fetching an id that is not the id of exactly
  one row answers with an error and no data, deleting removes the rows of that id.
\<close>

type_synonym ledger = "(string \<times> jsval) list"

definition no_rows :: PostgrestError where
  "no_rows = \<lparr>message = ''JSON object requested, multiple (or no) rows returned'',
              details = None, hint = None, code = Some ''PGRST116''\<rparr>"

definition ledger_client :: "ledger client" where
  "ledger_client =
     \<lparr>select_single = (\<lambda>tid tbl.
          case filter (\<lambda>row. fst row = tid) tbl of
            [row] \<Rightarrow> \<lparr>data = snd row, error = None, count = None\<rparr>
          | _ \<Rightarrow> \<lparr>data = JNull, error = Some no_rows, count = None\<rparr>),
      delete_eq = (\<lambda>tid tbl.
          (\<lparr>data = JNull, error = None, count = None\<rparr>, filter (\<lambda>row. fst row \<noteq> tid) tbl))\<rparr>"

subsection \<open>Example rows, requests and stores\<close>

text \<open>
  Concrete inputs on which the theorems below are evaluated: two rows of the list (a
  deposit stored with a negative amount, an installment on a financing whose amount is 0),
  request bodies, three stores for \<^verbatim>\<open>add_transaction\<close> (one that accepts, one that
  refuses with a structured outcome, one whose call fails) and a ledger of two rows.
\<close>

definition row_setoran :: TransactionRPCResult where
  "row_setoran = \<lparr>id' = ''T1'', anggota_id = ''A1'', tipe_transaksi = ''masuk'',
     source_type = Some ''tabungan'', deskripsi = None, jumlah = - 5000, sebelum = 0,
     sesudah = 5000, pembiayaan_id = None, tabungan_id = Some ''S1'',
     created_at = ''2024-01-01'', updated_at = ''2024-01-01'',
     anggota_nama = None, anggota_nomor_rekening = None,
     tabungan_saldo = Some 5000, tabungan_jenis_id = Some ''J1'',
     tabungan_jenis_nama = Some ''Wajib'', tabungan_jenis_kode = Some ''SW'',
     pembiayaan_jumlah = None, pembiayaan_sisa = None, pembiayaan_jenis = None\<rparr>"

definition row_angsuran :: TransactionRPCResult where
  "row_angsuran = \<lparr>id' = ''T2'', anggota_id = ''A1'', tipe_transaksi = ''keluar'',
     source_type = Some ''pembiayaan'', deskripsi = Some ''angsuran'', jumlah = 2500,
     sebelum = 0, sesudah = 0, pembiayaan_id = Some ''P1'', tabungan_id = None,
     created_at = ''2024-01-02'', updated_at = ''2024-01-02'',
     anggota_nama = Some ''Siti'', anggota_nomor_rekening = None,
     tabungan_saldo = None, tabungan_jenis_id = None,
     tabungan_jenis_nama = None, tabungan_jenis_kode = None,
     pembiayaan_jumlah = Some 0, pembiayaan_sisa = Some 0, pembiayaan_jenis = Some ''Murabahah''\<rparr>"

definition list_answer :: "TransactionRPCResult list option PostgrestResponse" where
  "list_answer = \<lparr>data = Some [row_setoran, row_angsuran], error = None, count = None\<rparr>"

definition body_setoran :: jsval where
  "body_setoran = JObj [(''anggota_id'', JStr ''A1''), (''tipe_transaksi'', JStr ''masuk''),
     (''source_type'', JStr ''tabungan''), (''jumlah'', JNum 1000),
     (''jenis_tabungan_id'', JStr ''J1'')]"

definition body_angsuran :: jsval where
  "body_angsuran = JObj [(''anggota_id'', JStr ''A1''), (''tipe_transaksi'', JStr ''masuk''),
     (''source_type'', JStr ''pembiayaan''), (''jumlah'', JNum 2500),
     (''pembiayaan_id'', JStr ''P1'')]"

definition body_legacy :: jsval where
  "body_legacy = JObj [(''anggota_id'', JStr ''A1''), (''tipe_transaksi'', JStr ''masuk''),
     (''source_type'', JStr ''pembiayaan''), (''jumlah'', JNum 2500),
     (''pinjaman_id'', JStr ''L9'')]"

definition body_both :: jsval where
  "body_both = JObj [(''anggota_id'', JStr ''A1''), (''tipe_transaksi'', JStr ''masuk''),
     (''source_type'', JStr ''pembiayaan''), (''jumlah'', JNum 2500),
     (''pinjaman_id'', JStr ''L9''), (''pembiayaan_id'', JStr ''P1'')]"

definition body_no_anggota :: jsval where
  "body_no_anggota = JObj [(''tipe_transaksi'', JStr ''masuk''),
     (''source_type'', JStr ''tabungan''), (''jumlah'', JNum 1000)]"

definition body_no_jenis :: jsval where
  "body_no_jenis = JObj [(''anggota_id'', JStr ''A1''), (''tipe_transaksi'', JStr ''masuk''),
     (''source_type'', JStr ''tabungan''), (''jumlah'', JNum 1000)]"

definition body_zero :: jsval where
  "body_zero = JObj [(''anggota_id'', JStr ''A1''), (''tipe_transaksi'', JStr ''masuk''),
     (''source_type'', JStr ''tabungan''), (''jumlah'', JNum 0),
     (''jenis_tabungan_id'', JStr ''J1'')]"

definition body_no_jumlah :: jsval where
  "body_no_jumlah = JObj [(''anggota_id'', JStr ''A1''), (''tipe_transaksi'', JStr ''masuk''),
     (''source_type'', JStr ''tabungan''), (''jenis_tabungan_id'', JStr ''J1'')]"

definition body_zero_string :: jsval where
  "body_zero_string = JObj [(''anggota_id'', JStr ''A1''), (''tipe_transaksi'', JStr ''masuk''),
     (''source_type'', JStr ''tabungan''), (''jumlah'', JStr ''0''),
     (''jenis_tabungan_id'', JStr ''J1'')]"

definition store_accepts :: "string \<Rightarrow> jsval \<Rightarrow> jsval PostgrestResponse" where
  "store_accepts name args =
     \<lparr>data = JObj [(''success'', JBool True), (''transaction_id'', JStr ''T1'')],
      error = None, count = None\<rparr>"

definition store_rejects :: "string \<Rightarrow> jsval \<Rightarrow> jsval PostgrestResponse" where
  "store_rejects name args =
     \<lparr>data = JObj [(''success'', JBool False), (''error'', JStr ''Saldo tidak mencukupi'')],
      error = None, count = None\<rparr>"

definition store_fails :: "string \<Rightarrow> jsval \<Rightarrow> jsval PostgrestResponse" where
  "store_fails name args =
     \<lparr>data = JNull,
      error = Some \<lparr>message = ''connection refused'', details = None, hint = None, code = None\<rparr>,
      count = None\<rparr>"

definition ledger_two :: ledger where
  "ledger_two = [(''T1'', JObj [(''id'', JStr ''T1''), (''jumlah'', JNum 5000)]),
                 (''T2'', JObj [(''id'', JStr ''T2''), (''jumlah'', JNum 2500)])]"

section \<open>Properties\<close>

subsection \<open>Reading values\<close>

lemma get_nullish: "nullish b \<Longrightarrow> get b k = JUndefined"
  by (cases b) simp_all

lemma truthy_get_not_nullish: "truthy (get b k) \<Longrightarrow> \<not> nullish b"
  using get_nullish [of b k] by auto

subsection \<open>The list\<close>

lemma get_transform_jumlah: "get (transform item) ''jumlah'' = JNum (signed_jumlah item)"
  by (simp add: transform_def)

lemma get_transform_anggota: "get (transform item) ''anggota'' = anggota_of item"
  by (simp add: transform_def)

lemma get_transform_tabungan: "get (transform item) ''tabungan'' = tabungan_of item"
  by (simp add: transform_def)

lemma get_transform_pinjaman: "get (transform item) ''pinjaman'' = pinjaman_of item"
  by (simp add: transform_def)

lemma GET_ok:
  "error r = None \<Longrightarrow> data r = Some rows \<Longrightarrow> GET r = \<lparr>status = 200, body = JArr (map transform rows)\<rparr>"
  by (simp add: GET_def json_def)

lemma list_answer_error: "error list_answer = None"
  by (simp add: list_answer_def)

lemma list_answer_data: "data list_answer = Some [row_setoran, row_angsuran]"
  by (simp add: list_answer_def)

text \<open>
  Claim C1. When the store answers the list without an error, the handler answers 200
  with one entry per row, in order, and the \<^verbatim>\<open>jumlah\<close> of an entry is the absolute
  value of the row's \<^verbatim>\<open>jumlah\<close> when the row's \<^verbatim>\<open>tipe_transaksi\<close> is \<^verbatim>\<open>masuk\<close>
  and its negation when it is \<^verbatim>\<open>keluar\<close>, whatever the sign of the stored amount.
\<close>

theorem GET_jumlah_sign:
  assumes "error r = None" and "data r = Some rows"
  shows "status (GET r) = 200 \<and>
    (\<exists>ys. body (GET r) = JArr ys \<and> length ys = length rows \<and>
      (\<forall>i<length rows.
         (tipe_transaksi (rows ! i) = ''masuk'' \<longrightarrow>
            get (ys ! i) ''jumlah'' = JNum \<bar>jumlah (rows ! i)\<bar>) \<and>
         (tipe_transaksi (rows ! i) = ''keluar'' \<longrightarrow>
            get (ys ! i) ''jumlah'' = JNum (- \<bar>jumlah (rows ! i)\<bar>))))"
proof -
  have g: "GET r = \<lparr>status = 200, body = JArr (map transform rows)\<rparr>"
    using assms by (rule GET_ok)
  have "\<forall>i<length rows.
         (tipe_transaksi (rows ! i) = ''masuk'' \<longrightarrow>
            get (map transform rows ! i) ''jumlah'' = JNum \<bar>jumlah (rows ! i)\<bar>) \<and>
         (tipe_transaksi (rows ! i) = ''keluar'' \<longrightarrow>
            get (map transform rows ! i) ''jumlah'' = JNum (- \<bar>jumlah (rows ! i)\<bar>))"
    by (simp add: get_transform_jumlah signed_jumlah_def Number_def)
  then show ?thesis
    unfolding g by simp
qed

theorem GET_jumlah_sign_witness:
  "tipe_transaksi row_setoran = ''masuk'' \<and> jumlah row_setoran = - 5000 \<and>
   tipe_transaksi row_angsuran = ''keluar'' \<and> jumlah row_angsuran = 2500 \<and>
   (\<exists>ys. body (GET list_answer) = JArr ys \<and>
      get (ys ! 0) ''jumlah'' = JNum 5000 \<and> get (ys ! 1) ''jumlah'' = JNum (- 2500))"
proof -
  from GET_jumlah_sign [OF list_answer_error list_answer_data]
  obtain ys where b: "body (GET list_answer) = JArr ys"
    and a: "\<forall>i<length [row_setoran, row_angsuran].
         (tipe_transaksi ([row_setoran, row_angsuran] ! i) = ''masuk'' \<longrightarrow>
            get (ys ! i) ''jumlah'' = JNum \<bar>jumlah ([row_setoran, row_angsuran] ! i)\<bar>) \<and>
         (tipe_transaksi ([row_setoran, row_angsuran] ! i) = ''keluar'' \<longrightarrow>
            get (ys ! i) ''jumlah'' = JNum (- \<bar>jumlah ([row_setoran, row_angsuran] ! i)\<bar>))"
    by blast
  from a have "get (ys ! 0) ''jumlah'' = JNum 5000"
    by (simp add: row_setoran_def)
  moreover from a have "get (ys ! 1) ''jumlah'' = JNum (- 2500)"
    by (simp add: row_angsuran_def)
  ultimately show ?thesis
    using b by (simp add: row_setoran_def row_angsuran_def)
qed

text \<open>
  Claim C8. In every entry of the list, \<^verbatim>\<open>anggota\<close> is null when the row has no member
  name (null or empty), and \<^verbatim>\<open>pinjaman\<close> is null when the row has no linked loan: no
  loan id and, the join having found nothing, no loan column. Neither is ever an object
  around a blank key field: an \<^verbatim>\<open>anggota\<close> object has a non-empty \<^verbatim>\<open>nama\<close>, a
  \<^verbatim>\<open>pinjaman\<close> object a non-zero \<^verbatim>\<open>jumlah\<close>.
\<close>

theorem GET_absent_context_null:
  assumes "error r = None" and "data r = Some rows" and "i < length rows"
  shows "\<exists>ys. body (GET r) = JArr ys \<and>
     (anggota_nama (rows ! i) = None \<or> anggota_nama (rows ! i) = Some [] \<longrightarrow>
        get (ys ! i) ''anggota'' = JNull) \<and>
     (pembiayaan_id (rows ! i) = None \<and> pembiayaan_jumlah (rows ! i) = None \<and>
      pembiayaan_sisa (rows ! i) = None \<and> pembiayaan_jenis (rows ! i) = None \<longrightarrow>
        get (ys ! i) ''pinjaman'' = JNull) \<and>
     (get (ys ! i) ''anggota'' = JNull \<or>
        (\<exists>n. n \<noteq> [] \<and> get (get (ys ! i) ''anggota'') ''nama'' = JStr n)) \<and>
     (get (ys ! i) ''pinjaman'' = JNull \<or>
        (\<exists>n. n \<noteq> 0 \<and> get (get (ys ! i) ''pinjaman'') ''jumlah'' = JNum n))"
proof -
  have g: "body (GET r) = JArr (map transform rows)"
    using GET_ok [OF assms(1,2)] by simp
  have 1: "anggota_nama item = None \<or> anggota_nama item = Some [] \<Longrightarrow> anggota_of item = JNull"
    for item by (auto simp: anggota_of_def)
  have 2: "pembiayaan_jumlah item = None \<Longrightarrow> pinjaman_of item = JNull" for item
    by (simp add: pinjaman_of_def)
  have 3: "anggota_of item = JNull \<or>
      (\<exists>n. n \<noteq> [] \<and> get (anggota_of item) ''nama'' = JStr n)" for item
    by (cases "anggota_nama item") (simp_all add: anggota_of_def)
  have 4: "pinjaman_of item = JNull \<or>
      (\<exists>n. n \<noteq> 0 \<and> get (pinjaman_of item) ''jumlah'' = JNum n)" for item
    by (cases "pembiayaan_jumlah item") (simp_all add: pinjaman_of_def)
  show ?thesis
    unfolding g using assms(3) 1 [of "rows ! i"] 2 [of "rows ! i"] 3 [of "rows ! i"] 4 [of "rows ! i"]
    by (simp add: get_transform_anggota get_transform_pinjaman)
qed

theorem GET_absent_context_null_witness:
  "anggota_nama row_setoran = None \<and> pembiayaan_id row_setoran = None \<and>
   (\<exists>ys. body (GET list_answer) = JArr ys \<and>
      get (ys ! 0) ''anggota'' = JNull \<and> get (ys ! 0) ''pinjaman'' = JNull)"
  using GET_absent_context_null [OF list_answer_error list_answer_data, of 0]
  by (auto simp: row_setoran_def)

text \<open>
  Claim C10. The \<^verbatim>\<open>pinjaman\<close> of an entry is null exactly when the row's
  \<^verbatim>\<open>pembiayaan_jumlah\<close> is null or zero, whatever its \<^verbatim>\<open>pembiayaan_id\<close>; the
  \<^verbatim>\<open>tabungan\<close> of an entry is null exactly when the row's \<^verbatim>\<open>tabungan_id\<close> is null
  (or, being tested for truthiness, the empty string).
\<close>

theorem GET_pinjaman_keyed_on_amount:
  assumes "error r = None" and "data r = Some rows" and "i < length rows"
  shows "\<exists>ys. body (GET r) = JArr ys \<and>
     (get (ys ! i) ''pinjaman'' = JNull \<longleftrightarrow>
        pembiayaan_jumlah (rows ! i) = None \<or> pembiayaan_jumlah (rows ! i) = Some 0) \<and>
     (get (ys ! i) ''tabungan'' = JNull \<longleftrightarrow>
        tabungan_id (rows ! i) = None \<or> tabungan_id (rows ! i) = Some [])"
proof -
  have g: "body (GET r) = JArr (map transform rows)"
    using GET_ok [OF assms(1,2)] by simp
  have 1: "pinjaman_of item = JNull \<longleftrightarrow>
      pembiayaan_jumlah item = None \<or> pembiayaan_jumlah item = Some 0" for item
    by (cases "pembiayaan_jumlah item") (simp_all add: pinjaman_of_def)
  have 2: "tabungan_of item = JNull \<longleftrightarrow>
      tabungan_id item = None \<or> tabungan_id item = Some []" for item
    by (cases "tabungan_id item") (simp_all add: tabungan_of_def)
  show ?thesis
    unfolding g using assms(3)
    by (simp add: get_transform_pinjaman get_transform_tabungan 1 2)
qed

theorem GET_pinjaman_keyed_on_amount_witness:
  "pembiayaan_id row_angsuran = Some ''P1'' \<and> pembiayaan_jumlah row_angsuran = Some 0 \<and>
   tabungan_id row_setoran = Some ''S1'' \<and>
   (\<exists>ys. body (GET list_answer) = JArr ys \<and> get (ys ! 1) ''pinjaman'' = JNull) \<and>
   (\<exists>ys. body (GET list_answer) = JArr ys \<and> get (ys ! 0) ''tabungan'' \<noteq> JNull)"
  using GET_pinjaman_keyed_on_amount [OF list_answer_error list_answer_data, of 1]
    GET_pinjaman_keyed_on_amount [OF list_answer_error list_answer_data, of 0]
  by (auto simp: row_setoran_def row_angsuran_def)

subsection \<open>Creating\<close>

lemma first_missing_None_iff:
  "first_missing b fs = None \<longleftrightarrow> (\<forall>g\<in>set fs. truthy (get b g))"
  by (induction fs) auto

lemma first_missing_falsy:
  "first_missing b fs = Some g \<Longrightarrow> g \<in> set fs \<and> \<not> truthy (get b g)"
  by (induction fs) (auto split: if_splits)

lemma first_missing_first:
  "f \<in> set fs \<Longrightarrow> \<not> truthy (get b f) \<Longrightarrow>
   \<forall>g\<in>set (takeWhile (\<lambda>g. g \<noteq> f) fs). truthy (get b g) \<Longrightarrow>
   first_missing b fs = Some f"
  by (induction fs) auto

lemma first_missing_cong:
  "\<forall>g\<in>set fs. truthy (get b g) = truthy (get b' g) \<Longrightarrow>
   first_missing b fs = first_missing b' fs"
  by (induction fs) auto

lemma POST_rejected:
  "\<not> nullish b \<Longrightarrow> first_missing b requiredFields = Some g \<Longrightarrow>
   POST rpc (Inr b) = (json_status (JObj [(''error'', JStr (field_required g))]) 400, [])"
  by (simp add: POST_def POST_try_def)

lemma POST_gate:
  "first_missing b requiredFields = None \<Longrightarrow>
   get b ''source_type'' = JStr ''tabungan'' \<Longrightarrow> \<not> truthy (get b ''jenis_tabungan_id'') \<Longrightarrow>
   POST rpc (Inr b) =
     (json_status (JObj [(''error'',
        JStr ''Jenis tabungan harus dipilih untuk setoran atau penarikan'')]) 400, [])"
  by (cases "nullish b") (simp_all add: POST_def POST_try_def get_nullish)

lemma required_not_nullish:
  "\<forall>g\<in>set requiredFields. truthy (get b g) \<Longrightarrow> \<not> nullish b"
  using truthy_get_not_nullish [of b "''jumlah''"] by (simp add: requiredFields_def)

lemma POST_try_store:
  assumes "\<forall>g\<in>set requiredFields. truthy (get b g)"
    and "get b ''source_type'' = JStr ''tabungan'' \<longrightarrow> truthy (get b ''jenis_tabungan_id'')"
  shows "POST_try rpc b =
    (case error (rpc ''add_transaction'' (add_transaction_args b)) of
       Some e \<Rightarrow>
         (Inr (json_status
            (JObj [(''error'', JStr (''Failed to create transaction: '' @ message e))]) 500),
          [Rpc ''add_transaction'' (add_transaction_args b)])
     | None \<Rightarrow>
         if nullish (data (rpc ''add_transaction'' (add_transaction_args b)))
         then (Inl TypeError, [Rpc ''add_transaction'' (add_transaction_args b)])
         else if \<not> truthy (get (data (rpc ''add_transaction'' (add_transaction_args b))) ''success'')
         then (Inr (json_status
                 (JObj [(''error'', get (data (rpc ''add_transaction'' (add_transaction_args b))) ''error'')])
                 400),
               [Rpc ''add_transaction'' (add_transaction_args b)])
         else (Inr (json (JObj [(''success'', JBool True),
                 (''message'', JStr ''Transaction created successfully''),
                 (''data'', JObj [(''id'',
                    get (data (rpc ''add_transaction'' (add_transaction_args b))) ''transaction_id'')])])),
               [Rpc ''add_transaction'' (add_transaction_args b)]))"
proof -
  have n: "\<not> nullish b" using assms(1) by (rule required_not_nullish)
  have m: "first_missing b requiredFields = None"
    using assms(1) by (simp add: first_missing_None_iff)
  show ?thesis
  proof (cases "get b ''source_type'' = JStr ''tabungan''")
    case True
    with assms(2) have "truthy (get b ''jenis_tabungan_id'')" by simp
    with n m show ?thesis by (simp add: POST_try_def Let_def)
  next
    case False
    with n m show ?thesis by (simp add: POST_try_def Let_def)
  qed
qed

lemma POST_calls_store:
  assumes "\<forall>g\<in>set requiredFields. truthy (get b g)"
    and "get b ''source_type'' = JStr ''tabungan'' \<longrightarrow> truthy (get b ''jenis_tabungan_id'')"
  shows "snd (POST rpc (Inr b)) = [Rpc ''add_transaction'' (add_transaction_args b)]"
  by (simp add: POST_def POST_try_store [OF assms] split: option.split)

lemma POST_calls_cases:
  "snd (POST rpc req) = [] \<or>
   (\<exists>b. req = Inr b \<and> (\<forall>g\<in>set requiredFields. truthy (get b g)) \<and>
        snd (POST rpc req) = [Rpc ''add_transaction'' (add_transaction_args b)])"
proof (cases req)
  case (Inl e)
  then show ?thesis by (simp add: POST_def)
next
  case (Inr b)
  show ?thesis
  proof (cases "(\<forall>g\<in>set requiredFields. truthy (get b g)) \<and>
      (get b ''source_type'' = JStr ''tabungan'' \<longrightarrow> truthy (get b ''jenis_tabungan_id''))")
    case True
    then show ?thesis using Inr POST_calls_store [of b rpc] by simp
  next
    case False
    then have "snd (POST rpc (Inr b)) = []"
      by (cases "first_missing b requiredFields"; cases "nullish b")
         (auto simp: POST_def POST_try_def first_missing_None_iff split: option.splits)
    then show ?thesis using Inr by simp
  qed
qed

lemma required_setoran: "\<forall>g\<in>set requiredFields. truthy (get body_setoran g)"
  by (simp add: requiredFields_def body_setoran_def)

lemma gate_setoran:
  "get body_setoran ''source_type'' = JStr ''tabungan'' \<longrightarrow> truthy (get body_setoran ''jenis_tabungan_id'')"
  by (simp add: body_setoran_def)

text \<open>
  Claim C2, as the code has it. For a body that passes the local validation (every
  required field truthy, and a \<^verbatim>\<open>jenis_tabungan_id\<close> when the source is
  \<^verbatim>\<open>tabungan\<close>), with \<open>r\<close> the store's answer to \<^verbatim>\<open>add_transaction\<close>: a call error is
  answered by 500 with the store's message after \<^verbatim>\<open>Failed to create transaction: \<close>; a
  structured outcome whose \<^verbatim>\<open>success\<close> is falsy is answered by 400 with the outcome's
  \<^verbatim>\<open>error\<close>; a structured outcome whose \<^verbatim>\<open>success\<close> is truthy is answered by 200
  with \<^verbatim>\<open>{success: true, message, data: {id}}\<close>, the id being the outcome's
  \<^verbatim>\<open>transaction_id\<close>.
\<close>

theorem POST_store_outcome:
  assumes "\<forall>g\<in>set requiredFields. truthy (get b g)"
    and "get b ''source_type'' = JStr ''tabungan'' \<longrightarrow> truthy (get b ''jenis_tabungan_id'')"
    and "r = rpc ''add_transaction'' (add_transaction_args b)"
  shows "(\<forall>e. error r = Some e \<longrightarrow>
            fst (POST rpc (Inr b)) =
              \<lparr>status = 500,
               body = JObj [(''error'', JStr (''Failed to create transaction: '' @ message e))]\<rparr>) \<and>
         (error r = None \<and> \<not> nullish (data r) \<and> \<not> truthy (get (data r) ''success'') \<longrightarrow>
            fst (POST rpc (Inr b)) =
              \<lparr>status = 400, body = JObj [(''error'', get (data r) ''error'')]\<rparr>) \<and>
         (error r = None \<and> truthy (get (data r) ''success'') \<longrightarrow>
            fst (POST rpc (Inr b)) =
              \<lparr>status = 200,
               body = JObj [(''success'', JBool True),
                            (''message'', JStr ''Transaction created successfully''),
                            (''data'', JObj [(''id'', get (data r) ''transaction_id'')])]\<rparr>)"
proof -
  have t: "truthy (get (data r) ''success'') \<Longrightarrow> \<not> nullish (data r)"
    by (rule truthy_get_not_nullish)
  have p: "POST_try rpc b =
    (case error r of
       Some e \<Rightarrow>
         (Inr (json_status
            (JObj [(''error'', JStr (''Failed to create transaction: '' @ message e))]) 500),
          [Rpc ''add_transaction'' (add_transaction_args b)])
     | None \<Rightarrow>
         if nullish (data r)
         then (Inl TypeError, [Rpc ''add_transaction'' (add_transaction_args b)])
         else if \<not> truthy (get (data r) ''success'')
         then (Inr (json_status (JObj [(''error'', get (data r) ''error'')]) 400),
               [Rpc ''add_transaction'' (add_transaction_args b)])
         else (Inr (json (JObj [(''success'', JBool True),
                 (''message'', JStr ''Transaction created successfully''),
                 (''data'', JObj [(''id'', get (data r) ''transaction_id'')])])),
               [Rpc ''add_transaction'' (add_transaction_args b)]))"
    unfolding assms(3) using assms(1,2) by (rule POST_try_store)
  show ?thesis
    using t by (auto simp: POST_def p json_def json_status_def)
qed

theorem POST_store_outcome_witness:
  "fst (POST store_fails (Inr body_setoran)) =
     \<lparr>status = 500,
      body = JObj [(''error'', JStr ''Failed to create transaction: connection refused'')]\<rparr> \<and>
   fst (POST store_rejects (Inr body_setoran)) =
     \<lparr>status = 400, body = JObj [(''error'', JStr ''Saldo tidak mencukupi'')]\<rparr> \<and>
   fst (POST store_accepts (Inr body_setoran)) =
     \<lparr>status = 200,
      body = JObj [(''success'', JBool True),
                   (''message'', JStr ''Transaction created successfully''),
                   (''data'', JObj [(''id'', JStr ''T1'')])]\<rparr>"
  using POST_store_outcome [OF required_setoran gate_setoran refl, of store_fails]
    POST_store_outcome [OF required_setoran gate_setoran refl, of store_rejects]
    POST_store_outcome [OF required_setoran gate_setoran refl, of store_accepts]
  by (simp add: store_fails_def store_rejects_def store_accepts_def)

text \<open>
  A store that refuses a valid deposit with a structured outcome (no call error,
  \<^verbatim>\<open>success\<close> false) is answered by 400, not by 500.
\<close>

theorem POST_store_rejects_counterexample:
  "error (store_rejects ''add_transaction'' (add_transaction_args body_setoran)) = None \<and>
   get (data (store_rejects ''add_transaction'' (add_transaction_args body_setoran))) ''success''
     = JBool False \<and>
   status (fst (POST store_rejects (Inr body_setoran))) = 400 \<and>
   status (fst (POST store_rejects (Inr body_setoran))) \<noteq> 500"
  by (simp add: POST_def POST_try_store [OF required_setoran gate_setoran] store_rejects_def
      json_status_def)

text \<open>
  Claim C3. A body (any JSON value but null) that omits one of the four required fields
  is answered by 400 and no store call is made. The message is that of the first
  required field, in the order \<^verbatim>\<open>anggota_id\<close>, \<^verbatim>\<open>tipe_transaksi\<close>, \<^verbatim>\<open>source_type\<close>,
  \<^verbatim>\<open>jumlah\<close>, that is missing or falsy: it names the omitted field whenever the
  required fields before it are given.
\<close>

theorem POST_missing_required:
  assumes "field \<in> set requiredFields" and "get b field = JUndefined" and "\<not> nullish b"
  shows "snd (POST rpc (Inr b)) = [] \<and>
     status (fst (POST rpc (Inr b))) = 400 \<and>
     (\<exists>g\<in>set requiredFields. \<not> truthy (get b g) \<and>
        body (fst (POST rpc (Inr b))) = JObj [(''error'', JStr (field_required g))]) \<and>
     ((\<forall>g\<in>set (takeWhile (\<lambda>g. g \<noteq> field) requiredFields). truthy (get b g)) \<longrightarrow>
        body (fst (POST rpc (Inr b))) = JObj [(''error'', JStr (field_required field))])"
proof -
  have f: "\<not> truthy (get b field)" using assms(2) by simp
  have "first_missing b requiredFields \<noteq> None"
    using assms(1) f by (auto simp: first_missing_None_iff)
  then obtain g where g: "first_missing b requiredFields = Some g" by blast
  have p: "POST rpc (Inr b) = (json_status (JObj [(''error'', JStr (field_required g))]) 400, [])"
    using assms(3) g by (rule POST_rejected)
  have 1: "g \<in> set requiredFields \<and> \<not> truthy (get b g)"
    using g by (rule first_missing_falsy)
  have 2: "g = field" if "\<forall>g\<in>set (takeWhile (\<lambda>g. g \<noteq> field) requiredFields). truthy (get b g)"
    using first_missing_first [OF assms(1) f that] g by simp
  show ?thesis
    using 1 2 by (auto simp: p json_status_def)
qed

theorem POST_missing_required_witness:
  "get body_no_anggota ''anggota_id'' = JUndefined \<and>
   POST store_accepts (Inr body_no_anggota) =
     (\<lparr>status = 400, body = JObj [(''error'', JStr ''Field 'anggota_id' is required'')]\<rparr>, [])"
proof -
  have 1: "''anggota_id'' \<in> set requiredFields" by (simp add: requiredFields_def)
  have 2: "get body_no_anggota ''anggota_id'' = JUndefined" by (simp add: body_no_anggota_def)
  have 3: "\<not> nullish body_no_anggota" by (simp add: body_no_anggota_def)
  have 4: "field_required ''anggota_id'' = ''Field 'anggota_id' is required''"
    by (simp add: field_required_def)
  show ?thesis
    using POST_missing_required [OF 1 2 3, of store_accepts] 2 4
    by (cases "POST store_accepts (Inr body_no_anggota)"; cases "fst (POST store_accepts (Inr body_no_anggota))")
       (simp add: requiredFields_def)
qed

text \<open>
  Claim C4. A body whose \<^verbatim>\<open>source_type\<close> is \<^verbatim>\<open>tabungan\<close> and that has no
  \<^verbatim>\<open>jenis_tabungan_id\<close> is answered by 400 and no store call is made; when the
  required fields are all given, the error is the message that a savings type must be
  chosen.
\<close>

theorem POST_tabungan_needs_jenis:
  assumes "get b ''source_type'' = JStr ''tabungan''"
    and "\<not> truthy (get b ''jenis_tabungan_id'')"
  shows "snd (POST rpc (Inr b)) = [] \<and>
     status (fst (POST rpc (Inr b))) = 400 \<and>
     ((\<forall>g\<in>set requiredFields. truthy (get b g)) \<longrightarrow>
        body (fst (POST rpc (Inr b))) =
          JObj [(''error'', JStr ''Jenis tabungan harus dipilih untuk setoran atau penarikan'')])"
proof (cases "first_missing b requiredFields")
  case None
  then have "\<forall>g\<in>set requiredFields. truthy (get b g)"
    by (simp add: first_missing_None_iff)
  then show ?thesis
    using POST_gate [OF None assms, of rpc] by (simp add: json_status_def)
next
  case (Some g)
  have n: "\<not> nullish b"
    using assms(1) get_nullish [of b "''source_type''"] by auto
  have "\<not> (\<forall>g\<in>set requiredFields. truthy (get b g))"
    using Some by (simp flip: first_missing_None_iff)
  then show ?thesis
    using POST_rejected [OF n Some, of rpc] by (auto simp: json_status_def)
qed

theorem POST_tabungan_needs_jenis_witness:
  "get body_no_jenis ''source_type'' = JStr ''tabungan'' \<and>
   get body_no_jenis ''jenis_tabungan_id'' = JUndefined \<and>
   snd (POST store_accepts (Inr body_no_jenis)) = [] \<and>
   status (fst (POST store_accepts (Inr body_no_jenis))) = 400 \<and>
   body (fst (POST store_accepts (Inr body_no_jenis))) =
     JObj [(''error'', JStr ''Jenis tabungan harus dipilih untuk setoran atau penarikan'')]"
proof -
  have 1: "get body_no_jenis ''source_type'' = JStr ''tabungan''"
    by (simp add: body_no_jenis_def)
  have 2: "\<not> truthy (get body_no_jenis ''jenis_tabungan_id'')"
    by (simp add: body_no_jenis_def)
  have 3: "\<forall>g\<in>set requiredFields. truthy (get body_no_jenis g)"
    by (simp add: requiredFields_def body_no_jenis_def)
  have 4: "get body_no_jenis ''jenis_tabungan_id'' = JUndefined"
    by (simp add: body_no_jenis_def)
  show ?thesis
    using POST_tabungan_needs_jenis [OF 1 2, of store_accepts] 1 3 4 by simp
qed

text \<open>
  Claim C5. A body that passes the local validation makes exactly one store call,
  \<^verbatim>\<open>add_transaction\<close>, whose \<^verbatim>\<open>p_pembiayaan_id\<close> is the body's \<^verbatim>\<open>pembiayaan_id\<close>
  when that is given (truthy, as \<^verbatim>\<open>||\<close> tests it), otherwise its \<^verbatim>\<open>pinjaman_id\<close> when
  that is given, otherwise null. So \<^verbatim>\<open>pembiayaan_id\<close> wins when both are given.
\<close>

theorem POST_loan_reference:
  assumes "\<forall>g\<in>set requiredFields. truthy (get b g)"
    and "get b ''source_type'' = JStr ''tabungan'' \<longrightarrow> truthy (get b ''jenis_tabungan_id'')"
  shows "(\<exists>args. snd (POST rpc (Inr b)) = [Rpc ''add_transaction'' args] \<and>
       get args ''p_pembiayaan_id'' =
         (if truthy (get b ''pembiayaan_id'') then get b ''pembiayaan_id''
          else if truthy (get b ''pinjaman_id'') then get b ''pinjaman_id''
          else JNull))"
proof -
  have "get (add_transaction_args b) ''p_pembiayaan_id'' =
         (if truthy (get b ''pembiayaan_id'') then get b ''pembiayaan_id''
          else if truthy (get b ''pinjaman_id'') then get b ''pinjaman_id''
          else JNull)"
    by (simp add: add_transaction_args_def js_or_def)
  then show ?thesis
    using POST_calls_store [OF assms, of rpc] by simp
qed

theorem POST_loan_reference_witness:
  "(\<exists>args. snd (POST store_accepts (Inr body_angsuran)) = [Rpc ''add_transaction'' args] \<and>
      get args ''p_pembiayaan_id'' = JStr ''P1'') \<and>
   (\<exists>args. snd (POST store_accepts (Inr body_legacy)) = [Rpc ''add_transaction'' args] \<and>
      get args ''p_pembiayaan_id'' = JStr ''L9'') \<and>
   (\<exists>args. snd (POST store_accepts (Inr body_both)) = [Rpc ''add_transaction'' args] \<and>
      get args ''p_pembiayaan_id'' = JStr ''P1'') \<and>
   (\<exists>args. snd (POST store_accepts (Inr body_setoran)) = [Rpc ''add_transaction'' args] \<and>
      get args ''p_pembiayaan_id'' = JNull)"
proof -
  have a: "\<forall>g\<in>set requiredFields. truthy (get body_angsuran g)"
    "get body_angsuran ''source_type'' = JStr ''tabungan'' \<longrightarrow>
       truthy (get body_angsuran ''jenis_tabungan_id'')"
    by (simp_all add: requiredFields_def body_angsuran_def)
  have l: "\<forall>g\<in>set requiredFields. truthy (get body_legacy g)"
    "get body_legacy ''source_type'' = JStr ''tabungan'' \<longrightarrow>
       truthy (get body_legacy ''jenis_tabungan_id'')"
    by (simp_all add: requiredFields_def body_legacy_def)
  have b: "\<forall>g\<in>set requiredFields. truthy (get body_both g)"
    "get body_both ''source_type'' = JStr ''tabungan'' \<longrightarrow>
       truthy (get body_both ''jenis_tabungan_id'')"
    by (simp_all add: requiredFields_def body_both_def)
  have 1: "get body_angsuran ''pembiayaan_id'' = JStr ''P1''"
    by (simp add: body_angsuran_def)
  have 2: "get body_legacy ''pembiayaan_id'' = JUndefined" "get body_legacy ''pinjaman_id'' = JStr ''L9''"
    by (simp_all add: body_legacy_def)
  have 3: "get body_both ''pembiayaan_id'' = JStr ''P1''"
    by (simp add: body_both_def)
  have 4: "get body_setoran ''pembiayaan_id'' = JUndefined" "get body_setoran ''pinjaman_id'' = JUndefined"
    by (simp_all add: body_setoran_def)
  show ?thesis
    using POST_loan_reference [OF a, of store_accepts] POST_loan_reference [OF l, of store_accepts]
      POST_loan_reference [OF b, of store_accepts]
      POST_loan_reference [OF required_setoran gate_setoran, of store_accepts]
    by (simp add: 1 2 3 4)
qed

text \<open>
  Claim C9, as the code has it. A body in which a required field is present but is the
  number 0 or the empty string is answered by 400 and no store call is made; the message
  names that field whenever the required fields before it are given; the answer is the
  one any body gets that omits the field and agrees on the other required fields. No
  store call of the handler, on any request, carries the number 0 as \<^verbatim>\<open>p_jumlah\<close>.
  The check is one of truthiness, not of amount: nothing is said of an amount of zero
  that arrives as a non-empty string.
\<close>

theorem POST_falsy_required:
  assumes "field \<in> set requiredFields"
    and "get b field = JNum 0 \<or> get b field = JStr []"
  shows "snd (POST rpc (Inr b)) = [] \<and>
     status (fst (POST rpc (Inr b))) = 400 \<and>
     ((\<forall>g\<in>set (takeWhile (\<lambda>g. g \<noteq> field) requiredFields). truthy (get b g)) \<longrightarrow>
        body (fst (POST rpc (Inr b))) = JObj [(''error'', JStr (field_required field))]) \<and>
     (\<forall>b'. \<not> nullish b' \<and> get b' field = JUndefined \<and>
        (\<forall>g\<in>set requiredFields. g \<noteq> field \<longrightarrow> get b' g = get b g) \<longrightarrow>
        POST rpc (Inr b') = POST rpc (Inr b)) \<and>
     (\<forall>req name args. Rpc name args \<in> set (snd (POST rpc req)) \<longrightarrow>
        get args ''p_jumlah'' \<noteq> JNum 0)"
proof -
  have f: "\<not> truthy (get b field)" using assms(2) by auto
  have n: "\<not> nullish b"
    using assms(2) get_nullish [of b field] by auto
  have "first_missing b requiredFields \<noteq> None"
    using assms(1) f by (auto simp: first_missing_None_iff)
  then obtain g where g: "first_missing b requiredFields = Some g" by blast
  have p: "POST rpc (Inr b) = (json_status (JObj [(''error'', JStr (field_required g))]) 400, [])"
    using n g by (rule POST_rejected)
  have 1: "g = field" if "\<forall>g\<in>set (takeWhile (\<lambda>g. g \<noteq> field) requiredFields). truthy (get b g)"
    using first_missing_first [OF assms(1) f that] g by simp
  have 2: "POST rpc (Inr b') = POST rpc (Inr b)"
    if "\<not> nullish b'" and "get b' field = JUndefined"
      and "\<forall>g\<in>set requiredFields. g \<noteq> field \<longrightarrow> get b' g = get b g" for b'
  proof -
    have "\<forall>g\<in>set requiredFields. truthy (get b' g) = truthy (get b g)"
      using that(2,3) f by auto
    then have "first_missing b' requiredFields = Some g"
      using first_missing_cong [of requiredFields b' b] g by simp
    then show ?thesis
      using POST_rejected [OF that(1), of g rpc] p by simp
  qed
  have 3: "get args ''p_jumlah'' \<noteq> JNum 0" if "Rpc name args \<in> set (snd (POST rpc req))"
    for req name args
  proof -
    from POST_calls_cases [of rpc req] that
    obtain b0 where b0: "\<forall>g\<in>set requiredFields. truthy (get b0 g)"
      and a: "args = add_transaction_args b0"
      by auto
    have "truthy (get b0 ''jumlah'')" using b0 by (simp add: requiredFields_def)
    moreover have "get args ''p_jumlah'' = get b0 ''jumlah''"
      by (simp add: a add_transaction_args_def)
    ultimately show ?thesis by auto
  qed
  show ?thesis
    using 1 2 3 by (simp add: p json_status_def)
qed

theorem POST_falsy_required_witness:
  "get body_zero ''jumlah'' = JNum 0 \<and>
   POST store_accepts (Inr body_zero) =
     (\<lparr>status = 400, body = JObj [(''error'', JStr ''Field 'jumlah' is required'')]\<rparr>, []) \<and>
   POST store_accepts (Inr body_no_jumlah) = POST store_accepts (Inr body_zero)"
proof -
  have 1: "''jumlah'' \<in> set requiredFields" by (simp add: requiredFields_def)
  have 2: "get body_zero ''jumlah'' = JNum 0" by (simp add: body_zero_def)
  have 3: "\<forall>g\<in>set (takeWhile (\<lambda>g. g \<noteq> ''jumlah'') requiredFields). truthy (get body_zero g)"
    by (simp add: requiredFields_def body_zero_def)
  have 4: "field_required ''jumlah'' = ''Field 'jumlah' is required''"
    by (simp add: field_required_def)
  have 5: "\<not> nullish body_no_jumlah \<and> get body_no_jumlah ''jumlah'' = JUndefined \<and>
        (\<forall>g\<in>set requiredFields. g \<noteq> ''jumlah'' \<longrightarrow> get body_no_jumlah g = get body_zero g)"
    by (simp add: requiredFields_def body_zero_def body_no_jumlah_def)
  have t: "snd (POST store_accepts (Inr body_zero)) = [] \<and>
     status (fst (POST store_accepts (Inr body_zero))) = 400 \<and>
     body (fst (POST store_accepts (Inr body_zero))) = JObj [(''error'', JStr (field_required ''jumlah''))] \<and>
     POST store_accepts (Inr body_no_jumlah) = POST store_accepts (Inr body_zero)"
    using POST_falsy_required [OF 1 disjI1 [OF 2], of store_accepts] 3 5 by blast
  show ?thesis
    using t 2 4
    by (cases "POST store_accepts (Inr body_zero)"; cases "fst (POST store_accepts (Inr body_zero))")
       simp
qed

lemma required_zero_string: "\<forall>g\<in>set requiredFields. truthy (get body_zero_string g)"
  by (simp add: requiredFields_def body_zero_string_def)

lemma gate_zero_string:
  "get body_zero_string ''source_type'' = JStr ''tabungan'' \<longrightarrow>
   truthy (get body_zero_string ''jenis_tabungan_id'')"
  by (simp add: body_zero_string_def)

text \<open>
  A deposit whose amount is the string \<^verbatim>\<open>"0"\<close> passes the required-field check, a
  non-empty string being truthy: it is forwarded to \<^verbatim>\<open>add_transaction\<close> with that
  amount and answered by 200. An amount of zero does reach the store.
\<close>

theorem POST_zero_string_counterexample:
  "get body_zero_string ''jumlah'' = JStr ''0'' \<and>
   snd (POST store_accepts (Inr body_zero_string)) =
     [Rpc ''add_transaction'' (add_transaction_args body_zero_string)] \<and>
   get (add_transaction_args body_zero_string) ''p_jumlah'' = JStr ''0'' \<and>
   status (fst (POST store_accepts (Inr body_zero_string))) = 200"
proof -
  have 1: "get body_zero_string ''jumlah'' = JStr ''0''"
    by (simp add: body_zero_string_def)
  have 2: "snd (POST store_accepts (Inr body_zero_string)) =
      [Rpc ''add_transaction'' (add_transaction_args body_zero_string)]"
    using required_zero_string gate_zero_string by (rule POST_calls_store)
  have 3: "get (add_transaction_args body_zero_string) ''p_jumlah'' = JStr ''0''"
    by (simp add: add_transaction_args_def 1)
  have 4: "status (fst (POST store_accepts (Inr body_zero_string))) = 200"
    by (simp add: POST_def POST_try_store [OF required_zero_string gate_zero_string]
        store_accepts_def json_def)
  show ?thesis
    using 1 2 3 4 by simp
qed

subsection \<open>Deleting\<close>

lemma DELETE_no_id_param:
  "\<not> truthy (str_or_null param) \<Longrightarrow>
   DELETE supabaseAdmin supabase param s =
     (json_status (JObj [(''error'', JStr ''Transaction ID is required'')]) 400, s, [])"
  by (simp add: DELETE_def)

lemma DELETE_fetch_error:
  assumes "tid \<noteq> []"
    and "c = (case supabaseAdmin of Some a \<Rightarrow> a | None \<Rightarrow> supabase)"
    and "error (select_single c tid s) = Some e"
  shows "DELETE supabaseAdmin supabase (Some tid) s =
     (json_status (JObj [(''error'', JStr (''Transaction not found: '' @ message e))]) 404,
      s, [SelectSingle transaksi tid])"
  using assms(1,3) unfolding assms(2) by (simp add: DELETE_def Let_def)

lemma DELETE_fetch_empty:
  assumes "tid \<noteq> []"
    and "c = (case supabaseAdmin of Some a \<Rightarrow> a | None \<Rightarrow> supabase)"
    and "error (select_single c tid s) = None"
    and "\<not> truthy (data (select_single c tid s))"
  shows "DELETE supabaseAdmin supabase (Some tid) s =
     (json_status (JObj [(''error'', JStr ''Transaction not found'')]) 404,
      s, [SelectSingle transaksi tid])"
  using assms(1,3,4) unfolding assms(2) by (simp add: DELETE_def Let_def)

lemma ledger_select_absent:
  "tid \<notin> fst ` set tbl \<Longrightarrow>
   select_single ledger_client tid tbl = \<lparr>data = JNull, error = Some no_rows, count = None\<rparr>"
proof -
  assume "tid \<notin> fst ` set tbl"
  then have "filter (\<lambda>row. fst row = tid) tbl = []"
    by (auto simp: filter_empty_conv)
  then show ?thesis by (simp add: ledger_client_def)
qed

lemma DELETE_known: "DELETE None ledger_client (Some ''T1'') ledger_two =
   (\<lparr>status = 200, body = JObj [(''success'', JBool True),
        (''message'', JStr ''Transaction deleted successfully'')]\<rparr>,
    [(''T2'', JObj [(''id'', JStr ''T2''), (''jumlah'', JNum 2500)])],
    [SelectSingle transaksi ''T1'', DeleteEq transaksi ''T1''])"
  by (simp add: DELETE_def ledger_client_def ledger_two_def json_def Let_def)

text \<open>
  Claim C6. Over the ledger table, a delete request whose (non-empty) id is the id of
  no row fails the existence check and is answered by 404 with an error body; the only
  store call is the fetch, no delete is issued, and the ledger is unchanged. This holds
  with or without an admin client.
\<close>

theorem DELETE_unknown_id:
  assumes "tid \<noteq> []" and "tid \<notin> fst ` set tbl"
    and "supabaseAdmin = None \<or> supabaseAdmin = Some ledger_client"
  shows "error (select_single ledger_client tid tbl) \<noteq> None \<and>
     (\<exists>msg. DELETE supabaseAdmin ledger_client (Some tid) tbl =
        (\<lparr>status = 404, body = JObj [(''error'', JStr msg)]\<rparr>, tbl,
         [SelectSingle transaksi tid]))"
proof -
  have c: "ledger_client = (case supabaseAdmin of Some a \<Rightarrow> a | None \<Rightarrow> ledger_client)"
    using assms(3) by auto
  have e: "error (select_single ledger_client tid tbl) = Some no_rows"
    using assms(2) by (simp add: ledger_select_absent)
  show ?thesis
    using DELETE_fetch_error [OF assms(1) c e] e by (simp add: json_status_def)
qed

theorem DELETE_unknown_id_witness:
  "''T9'' \<notin> fst ` set ledger_two \<and>
   status (fst (DELETE None ledger_client (Some ''T9'') ledger_two)) = 404 \<and>
   snd (DELETE None ledger_client (Some ''T9'') ledger_two) =
     (ledger_two, [SelectSingle transaksi ''T9''])"
proof -
  have 1: "''T9'' \<noteq> []" by simp
  have 2: "''T9'' \<notin> fst ` set ledger_two" by (simp add: ledger_two_def)
  have 3: "(None :: ledger client option) = None \<or> None = Some ledger_client" by simp
  show ?thesis
    using DELETE_unknown_id [OF 1 2 3] 2 by auto
qed

text \<open>
  Claim C7. A delete request with no \<^verbatim>\<open>id\<close> query parameter is answered by 400 with
  an error body; no store call is made, neither the existence check nor the delete, and
  the store is unchanged.
\<close>

theorem DELETE_missing_id:
  "DELETE supabaseAdmin supabase None s =
     (\<lparr>status = 400, body = JObj [(''error'', JStr ''Transaction ID is required'')]\<rparr>, s, [])"
  by (simp add: DELETE_no_id_param json_status_def)

theorem DELETE_missing_id_witness:
  "DELETE None ledger_client None ledger_two =
     (\<lparr>status = 400, body = JObj [(''error'', JStr ''Transaction ID is required'')]\<rparr>,
      ledger_two, [])"
  using DELETE_missing_id [of None ledger_client ledger_two] by simp

end
